theory Spec2Isabelle
  imports Complex_Main
begin

section \<open>Data model\<close>

text \<open>
  Timestamps are epoch milliseconds, modelled as integers. Prices are JavaScript numbers,
  modelled as reals; a price field holding \<open>null\<close> is \<open>None\<close>. Volumes are integers.
  Not-a-number values are outside the model.
\<close>

datatype source = SrcH | SrcL | SrcC | SrcA | SrcT

text \<open>
  A candle object. The field \<open>open\<close> of the source is \<open>openv\<close> here. \<open>firstUpdate\<close> exists
  only on open 1-minute candles (\<open>None\<close>: the object has no such field).
\<close>

record candle =
  timestamp :: int
  openv :: "real option"
  high :: "real option"
  low :: "real option"
  close :: "real option"
  volume :: int
  instrument :: string
  timeframe :: string
  source :: source
  isClosed :: bool
  firstUpdate :: "bool option"

text \<open>A value of a request field, as far as the handlers distinguish them.\<close>

datatype json = JNull | JStr string | JNum int | JBool bool

section \<open>The candle cache (lib/db.js)\<close>

text \<open>
  The table \<open>CANDLES\<close> with primary key (instrument, timeframe, timestamp): a list of rows
  in which no two rows share a key.
\<close>

record row =
  r_instrument :: string
  r_timeframe :: string
  r_timestamp :: int
  r_open :: "real option"
  r_high :: "real option"
  r_low :: "real option"
  r_close :: "real option"
  r_volume :: int

type_synonym candles_table = "row list"

definition rowKey :: "row \<Rightarrow> string \<times> string \<times> int" where
  "rowKey r = (r_instrument r, r_timeframe r, r_timestamp r)"

text \<open>\<open>INSERT OR REPLACE INTO CANDLES\<close>: a row with the same primary key is replaced.\<close>

definition insertOrReplace :: "row \<Rightarrow> candles_table \<Rightarrow> candles_table" where
  "insertOrReplace r t = filter (\<lambda>x. rowKey x \<noteq> rowKey r) t @ [r]"

definition rowOfCandle :: "candle \<Rightarrow> row" where
  "rowOfCandle c =
     \<lparr> r_instrument = instrument c, r_timeframe = timeframe c, r_timestamp = timestamp c,
       r_open = openv c, r_high = high c, r_low = low c, r_close = close c,
       r_volume = volume c \<rparr>"

text \<open>The filter of \<open>batchInsertCandles\<close> (db.js, lines 120-126).\<close>

definition validCandle :: "candle \<Rightarrow> bool" where
  "validCandle c \<longleftrightarrow>
     volume c > 0 \<and> openv c \<noteq> None \<and> high c \<noteq> None \<and> low c \<noteq> None \<and> close c \<noteq> None"

text \<open>
  How the transaction of one batch ends: the statement is finalised and the commit
  succeeds, or finalising fails (the code rolls back), or the commit fails.
\<close>

datatype txOutcome = Committed | FinalizeFailed | CommitFailed

datatype dbError = FinalizeError | CommitError

text \<open>
  \<open>batchInsertCandles\<close> (db.js, lines 116-175). The result is the table after the call and
  whether the promise was rejected. With no valid candle the promise resolves before any
  statement runs. The rows are written from the candles' own instrument and timeframe; the
  parameters of the same names are only logged.
\<close>

definition batchInsertCandles ::
  "txOutcome \<Rightarrow> candles_table \<Rightarrow> candle list \<Rightarrow> string \<Rightarrow> string
     \<Rightarrow> candles_table \<times> dbError option" where
  "batchInsertCandles outcome db candles instr tf =
     (let validCandles = filter validCandle candles in
      if length validCandles = 0 then (db, None)
      else (case outcome of
              Committed \<Rightarrow> (fold (\<lambda>c t. insertOrReplace (rowOfCandle c) t) validCandles db, None)
            | FinalizeFailed \<Rightarrow> (db, Some FinalizeError)
            | CommitFailed \<Rightarrow> (db, Some CommitError)))"

text \<open>
  \<open>getCached1mCandles\<close> (db.js, lines 178-205), for a query that succeeds: the rows of the
  symbol with timeframe 1m and timestamp between the bounds, by ascending timestamp, each
  returned as a closed candle of source C.
\<close>

definition candleOfRow :: "row \<Rightarrow> candle" where
  "candleOfRow r =
     \<lparr> timestamp = r_timestamp r, openv = r_open r, high = r_high r, low = r_low r,
       close = r_close r, volume = r_volume r, instrument = r_instrument r,
       timeframe = r_timeframe r, source = SrcC, isClosed = True, firstUpdate = None \<rparr>"

definition getCached1mCandles :: "candles_table \<Rightarrow> string \<Rightarrow> int \<Rightarrow> int \<Rightarrow> candle list" where
  "getCached1mCandles db symbol startMs endMs =
     map candleOfRow
       (sort_key r_timestamp
          (filter (\<lambda>r. r_instrument r = symbol \<and> r_timeframe r = ''1m''
                        \<and> startMs \<le> r_timestamp r \<and> r_timestamp r \<le> endMs) db))"




section \<open>Clearing the cache (lib/handlers/cache-handlers.js)\<close>

record clearCacheRequest =
  rq_instrument :: "json option"
  rq_timeframe :: "json option"
  rq_start_time :: "json option"
  rq_end_time :: "json option"

text \<open>Destructuring with the default \<open>'all'\<close>: the default replaces an absent field only.\<close>

definition orAll :: "json option \<Rightarrow> json" where
  "orAll v = (case v of None \<Rightarrow> JStr ''all'' | Some x \<Rightarrow> x)"

fun joinWith :: "string \<Rightarrow> string list \<Rightarrow> string" where
  "joinWith sep [] = []"
| "joinWith sep [x] = x"
| "joinWith sep (x # y # ys) = x @ sep @ joinWith sep (y # ys)"

text \<open>
  The statement \<open>handleClearCache\<close> builds (lines 5-31): the list of conditions, the
  parameters, and the query text.
\<close>

definition clearCacheConditions :: "clearCacheRequest \<Rightarrow> (string \<times> json) list" where
  "clearCacheConditions rq =
     (let instr = orAll (rq_instrument rq); tf = orAll (rq_timeframe rq);
          start_time = orAll (rq_start_time rq); end_time = orAll (rq_end_time rq) in
      (if instr \<noteq> JStr ''all'' then [(''instrument = ?'', instr)] else []) @
      (if tf \<noteq> JStr ''all'' then [(''timeframe = ?'', tf)] else []) @
      (if start_time \<noteq> JStr ''all'' \<or> end_time \<noteq> JStr ''all'' then
         (if start_time \<noteq> JStr ''all'' then [(''timestamp >= ?'', start_time)] else []) @
         (if end_time \<noteq> JStr ''all'' then [(''timestamp <= ?'', end_time)] else [])
       else []))"

definition clearCacheQuery :: "clearCacheRequest \<Rightarrow> string" where
  "clearCacheQuery rq =
     (let conditions = map fst (clearCacheConditions rq) in
      ''DELETE FROM CANDLES'' @
      (if length conditions > 0 then '' WHERE '' @ joinWith '' AND '' conditions else []))"

definition clearCacheParams :: "clearCacheRequest \<Rightarrow> json list" where
  "clearCacheParams rq = map snd (clearCacheConditions rq)"

text \<open>
  Running the statement. The database engine is not part of the repository: how it
  decides one condition with its parameter on a row is the parameter \<open>holds\<close>. A
  \<open>DELETE\<close> removes the rows on which every condition of the \<open>WHERE\<close> clause holds, so
  all rows when there is no clause.
\<close>

definition runDelete ::
  "(string \<Rightarrow> json \<Rightarrow> row \<Rightarrow> bool) \<Rightarrow> (string \<times> json) list \<Rightarrow> candles_table \<Rightarrow> candles_table" where
  "runDelete holds conds db = filter (\<lambda>r. \<not> list_all (\<lambda>(c, p). holds c p r) conds) db"

datatype wsMessage =
    ErrorMsg string
  | ClearCacheResponse nat

text \<open>
  \<open>handleClearCache\<close> (lines 4-42): \<open>dbFails\<close> says whether \<open>db.run\<close> reports an error.
  The result is the table afterwards and the message sent to the client, which carries
  the number of rows deleted.
\<close>

definition handleClearCache ::
  "(string \<Rightarrow> json \<Rightarrow> row \<Rightarrow> bool) \<Rightarrow> bool \<Rightarrow> candles_table \<Rightarrow> clearCacheRequest
     \<Rightarrow> candles_table \<times> wsMessage" where
  "handleClearCache holds dbFails db rq =
     (if dbFails then (db, ErrorMsg ''Database error clearing cache'')
      else (let db' = runDelete holds (clearCacheConditions rq) db
            in (db', ClearCacheResponse (length db - length db'))))"

definition absentOrAll :: "json option \<Rightarrow> bool" where
  "absentOrAll v \<longleftrightarrow> v = None \<or> v = Some (JStr ''all'')"

section \<open>Acquisition in handleGetData (the data handlers in lib/handlers/settings-handlers.js)\<close>

text \<open>The constants of the utility module (src/unnamed/part_001).\<close>

definition DEFAULT_DATA_RANGE_MINUTES :: int where
  "DEFAULT_DATA_RANGE_MINUTES = 86400"

definition EARLY_CANDLE_CUSHION_MINUTES :: int where
  "EARLY_CANDLE_CUSHION_MINUTES = 4320"

definition LATE_CANDLE_CUSHION_MINUTES :: int where
  "LATE_CANDLE_CUSHION_MINUTES = 180"


text \<open>
  The \<open>end_time\<close> of a request: absent, the string \<open>'current'\<close>, or another value, given by
  the milliseconds \<open>new Date(end_time).getTime()\<close> makes of it.
\<close>

datatype endTime = EndAbsent | EndCurrent | EndExplicit int

text \<open>
  A call of \<open>fetchHistorical1mCandles\<close> with symbol, start and end, tagged by the place
  that makes it: the fetch of the whole range on an empty cache (line 220), the early
  fill (line 243) and the late fill (lines 267 and 284).
\<close>

datatype fetchCall =
    FullFetch string int int
  | EarlyFetch string int int
  | LateFetch string int int

text \<open>
  What the handler cannot decide: the vendor's answer to a historical fetch (\<open>None\<close>: the
  fetch throws) and how the cache transaction of a batch ends.
\<close>

record getDataEnv =
  vendor :: "fetchCall \<Rightarrow> candle list option"
  txOutcomeOf :: "candle list \<Rightarrow> txOutcome"

record acquisition =
  acq_candles :: "candle list"
  acq_db :: candles_table
  acq_calls :: "fetchCall list"
  acq_skipped :: bool

text \<open>Lines 217-228: no cached candle, the whole range is fetched.\<close>

definition fetchWholeRange ::
  "getDataEnv \<Rightarrow> string \<Rightarrow> int \<Rightarrow> int \<Rightarrow> bool \<Rightarrow> acquisition \<Rightarrow> acquisition" where
  "fetchWholeRange env symbol startMs endMs save_cache st =
     (let call = FullFetch symbol startMs endMs;
          st1 = st\<lparr>acq_calls := acq_calls st @ [call]\<rparr> in
      case vendor env call of
        None \<Rightarrow> st1\<lparr>acq_skipped := True\<rparr>
      | Some fetched \<Rightarrow>
          (let st2 = st1\<lparr>acq_candles := fetched\<rparr> in
           if save_cache \<and> length fetched > 0 then
             (case batchInsertCandles (txOutcomeOf env fetched) (acq_db st2) fetched symbol ''1m'' of
                (db', None) \<Rightarrow> st2\<lparr>acq_db := db'\<rparr>
              | (db', Some e) \<Rightarrow> st2\<lparr>acq_db := db', acq_skipped := True\<rparr>)
           else st2))"

text \<open>
  Lines 235-255: the early fill. A fetch that throws, or a cache write that fails, is
  logged and the handler goes on with what it has.
\<close>

definition fillEarlier ::
  "getDataEnv \<Rightarrow> string \<Rightarrow> int \<Rightarrow> bool \<Rightarrow> int \<Rightarrow> acquisition \<Rightarrow> acquisition" where
  "fillEarlier env symbol startMs save_cache earliestCached st =
     (if startMs < earliestCached then
        (let cushionMs = EARLY_CANDLE_CUSHION_MINUTES * 60 * 1000 in
         if earliestCached - startMs \<le> cushionMs then st
         else
           (let call = EarlyFetch symbol startMs (earliestCached - 60000);
                st1 = st\<lparr>acq_calls := acq_calls st @ [call]\<rparr> in
            case vendor env call of
              None \<Rightarrow> st1
            | Some earlierCandles \<Rightarrow>
                if length earlierCandles > 0 then
                  (let st2 = st1\<lparr>acq_candles := earlierCandles @ acq_candles st1\<rparr> in
                   if save_cache then
                     st2\<lparr>acq_db := fst (batchInsertCandles (txOutcomeOf env earlierCandles)
                                            (acq_db st2) earlierCandles symbol ''1m'')\<rparr>
                   else st2)
                else st1))
      else st)"

text \<open>Lines 264-277 and 281-294, the same code twice: the late fetch itself.\<close>

definition fetchLater ::
  "getDataEnv \<Rightarrow> string \<Rightarrow> int \<Rightarrow> bool \<Rightarrow> int \<Rightarrow> acquisition \<Rightarrow> acquisition" where
  "fetchLater env symbol endMs save_cache latestCachedForSymbol st =
     (let call = LateFetch symbol (latestCachedForSymbol + 60000) endMs;
          st1 = st\<lparr>acq_calls := acq_calls st @ [call]\<rparr> in
      case vendor env call of
        None \<Rightarrow> st1
      | Some laterCandles \<Rightarrow>
          if length laterCandles > 0 then
            (let st2 = st1\<lparr>acq_candles := acq_candles st1 @ laterCandles\<rparr> in
             if save_cache then
               st2\<lparr>acq_db := fst (batchInsertCandles (txOutcomeOf env laterCandles)
                                      (acq_db st2) laterCandles symbol ''1m'')\<rparr>
             else st2)
          else st1)"

text \<open>Lines 258-296: the late fill.\<close>

definition fillLater ::
  "getDataEnv \<Rightarrow> string \<Rightarrow> int \<Rightarrow> endTime \<Rightarrow> bool \<Rightarrow> int \<Rightarrow> acquisition \<Rightarrow> acquisition" where
  "fillLater env symbol endMs end_time save_cache latestCachedForSymbol st =
     (if endMs > latestCachedForSymbol then
        (if end_time = EndAbsent \<or> end_time = EndCurrent then
           (let cushionMs = LATE_CANDLE_CUSHION_MINUTES * 60 * 1000 in
            if endMs - latestCachedForSymbol \<le> cushionMs then st
            else fetchLater env symbol endMs save_cache latestCachedForSymbol st)
         else fetchLater env symbol endMs save_cache latestCachedForSymbol st)
      else st)"

text \<open>Lines 148-150: the range of the request.\<close>

definition requestStartMs :: "int \<Rightarrow> int option \<Rightarrow> int" where
  "requestStartMs now start_time =
     (case start_time of None \<Rightarrow> now - DEFAULT_DATA_RANGE_MINUTES * 60 * 1000 | Some t \<Rightarrow> t)"

definition requestEndMs :: "int \<Rightarrow> endTime \<Rightarrow> int" where
  "requestEndMs now end_time = (case end_time of EndExplicit t \<Rightarrow> t | _ \<Rightarrow> now)"

text \<open>
  Lines 211-300 of \<open>handleGetData\<close>, for one symbol: the 1-minute candles from the cache
  and the historical fetches that fill them up, with the calls made in order.
\<close>

definition acquire1m ::
  "getDataEnv \<Rightarrow> int \<Rightarrow> int option \<Rightarrow> endTime \<Rightarrow> bool \<Rightarrow> bool \<Rightarrow> candles_table \<Rightarrow> string
     \<Rightarrow> acquisition" where
  "acquire1m env now start_time end_time use_cache save_cache db symbol =
     (let startMs = requestStartMs now start_time;
          endMs = requestEndMs now end_time;
          candles1m = (if use_cache then getCached1mCandles db symbol startMs endMs else []);
          st = \<lparr> acq_candles = candles1m, acq_db = db, acq_calls = [], acq_skipped = False \<rparr> in
      if length candles1m = 0 then fetchWholeRange env symbol startMs endMs save_cache st
      else
        (let earliestCached = Min (set (map timestamp candles1m));
             latestCachedForSymbol = Max (set (map timestamp candles1m));
             st1 = fillEarlier env symbol startMs save_cache earliestCached st;
             st2 = fillLater env symbol endMs end_time save_cache latestCachedForSymbol st1
         in st2\<lparr>acq_candles := sort_key timestamp (acq_candles st2)\<rparr>))"

fun isEarlyFetch :: "fetchCall \<Rightarrow> bool" where
  "isEarlyFetch (EarlyFetch _ _ _) = True"
| "isEarlyFetch _ = False"

fun isLateFetch :: "fetchCall \<Rightarrow> bool" where
  "isLateFetch (LateFetch _ _ _) = True"
| "isLateFetch _ = False"

definition earlyRefetchIssued :: "acquisition \<Rightarrow> bool" where
  "earlyRefetchIssued a = list_ex isEarlyFetch (acq_calls a)"

definition lateRefetchIssued :: "acquisition \<Rightarrow> bool" where
  "lateRefetchIssued a = list_ex isLateFetch (acq_calls a)"

definition explicitEnd :: "endTime \<Rightarrow> bool" where
  "explicitEnd e \<longleftrightarrow> e \<noteq> EndAbsent \<and> e \<noteq> EndCurrent"

section \<open>Timeframes (the utility module, src/unnamed/part_001)\<close>

datatype jsError =
    InvalidTimeframe string
  | ReferenceError string

definition isDigit :: "char \<Rightarrow> bool" where
  "isDigit c \<longleftrightarrow> c \<in> set ''0123456789''"

definition digitValue :: "char \<Rightarrow> int" where
  "digitValue c = int (of_char c) - 48"

text \<open>\<open>parseInt\<close> on a string of decimal digits.\<close>

definition parseDigits :: "string \<Rightarrow> int" where
  "parseDigits ds = fold (\<lambda>c n. 10 * n + digitValue c) ds 0"

text \<open>
  \<open>parseTimeframeMs\<close>: the string must match \<open>^(\d+)([mhd])$\<close>, else the function throws.
\<close>

definition parseTimeframeMs :: "string \<Rightarrow> jsError + int" where
  "parseTimeframeMs tf =
     (if tf = [] then Inl (InvalidTimeframe tf)
      else (let digits = butlast tf; unit = last tf in
            if digits \<noteq> [] \<and> list_all isDigit digits \<and> unit \<in> set ''mhd'' then
              (let multiplier = (if unit = CHR ''m'' then 60 * 1000
                                 else if unit = CHR ''h'' then 60 * 60 * 1000
                                 else 24 * 60 * 60 * 1000)
               in Inr (parseDigits digits * multiplier))
            else Inl (InvalidTimeframe tf)))"

section \<open>Alignment and aggregation (lib/candle-processor.js)\<close>

text \<open>
  The time-zone functions of the JavaScript runtime are not part of the repository; they
  are parameters. A wall-clock reading (a calendar date and a time of day) is written as
  the milliseconds from 1970-01-01 00:00 on that clock, so that its calendar day is the
  quotient by one day.
  \<^item> \<open>easternWallClock t\<close>: the America/New_York reading at the instant \<open>t\<close>
    (\<open>toLocaleString\<close> and \<open>toLocaleDateString\<close> with that time zone);
  \<^item> \<open>localInstant w\<close>: the instant at which the server's own clock reads \<open>w\<close>
    (\<open>new Date(y, m, d, h)\<close> and \<open>new Date\<close> of a string without a zone).
\<close>

record runtime =
  easternWallClock :: "int \<Rightarrow> int"
  localInstant :: "int \<Rightarrow> int"

definition dayMs :: int where
  "dayMs = 24 * 60 * 60 * 1000"

text \<open>
  \<open>getSessionStartUTC\<close> (lines 9-44) with the module's \<open>sessionBoundaryCache\<close> passed in and
  returned.
\<close>

definition getSessionStartUTC :: "runtime \<Rightarrow> (int \<rightharpoonup> int) \<Rightarrow> int \<Rightarrow> int \<times> (int \<rightharpoonup> int)" where
  "getSessionStartUTC rt sessionBoundaryCache utcTimestamp =
     (let dayKey = utcTimestamp div (24 * 60 * 60 * 1000) in
      case sessionBoundaryCache dayKey of
        Some cached \<Rightarrow> (cached, sessionBoundaryCache)
      | None \<Rightarrow>
          (let easternDay = easternWallClock rt utcTimestamp div dayMs;
               sessionDate = localInstant rt (easternDay * dayMs + 18 * 60 * 60 * 1000);
               tempUTC = localInstant rt (easternDay * dayMs + 12 * 60 * 60 * 1000);
               tempETDate = localInstant rt (easternWallClock rt tempUTC);
               offsetMs = tempUTC - tempETDate;
               sessionStartUTC = sessionDate + offsetMs
           in (sessionStartUTC, sessionBoundaryCache(dayKey \<mapsto> sessionStartUTC))))"

text \<open>\<open>getSessionBasedAlignment\<close> (lines 47-66).\<close>

definition getSessionBasedAlignment ::
  "runtime \<Rightarrow> (int \<rightharpoonup> int) \<Rightarrow> int \<Rightarrow> int \<Rightarrow> int \<times> (int \<rightharpoonup> int)" where
  "getSessionBasedAlignment rt sessionBoundaryCache ts intervalMs =
     (case getSessionStartUTC rt sessionBoundaryCache ts of
        (sessionStartToday, cache') \<Rightarrow>
          (let baseSessionStart =
                 (if ts < sessionStartToday then sessionStartToday - (24 * 60 * 60 * 1000)
                  else sessionStartToday);
               intervalsSinceBase = (ts - baseSessionStart) div intervalMs;
               alignedTime = baseSessionStart + (intervalsSinceBase * intervalMs)
           in (alignedTime, cache')))"

text \<open>\<open>needsSessionAlignment\<close> (lines 69-74); it throws when the timeframe does not parse.\<close>

definition needsSessionAlignment :: "string \<Rightarrow> jsError + bool" where
  "needsSessionAlignment tf =
     (case parseTimeframeMs tf of
        Inl e \<Rightarrow> Inl e
      | Inr intervalMs \<Rightarrow>
          (let oneHourMs = 60 * 60 * 1000; oneDayMs = 24 * 60 * 60 * 1000
           in Inr (intervalMs > oneHourMs \<and> intervalMs \<le> oneDayMs)))"

text \<open>
  \<open>Math.max\<close> and \<open>Math.min\<close> on two fields that may be \<open>null\<close>: \<open>null\<close> counts as 0 and
  the result is a number.
\<close>

definition toNumber :: "real option \<Rightarrow> real" where
  "toNumber v = (case v of None \<Rightarrow> 0 | Some x \<Rightarrow> x)"

definition jsMax :: "real option \<Rightarrow> real option \<Rightarrow> real option" where
  "jsMax a b = Some (max (toNumber a) (toNumber b))"

definition jsMin :: "real option \<Rightarrow> real option \<Rightarrow> real option" where
  "jsMin a b = Some (min (toNumber a) (toNumber b))"


text \<open>Lines 108-111 and 135-138: the closed flag of a finished output candle.\<close>

definition closeCandle :: "int \<Rightarrow> int option \<Rightarrow> candle \<Rightarrow> int list \<Rightarrow> candle" where
  "closeCandle intervalMs maxTs currentCandle currentCandleTimestamps =
     (let lastPossibleTs = timestamp currentCandle + intervalMs - 60000;
          hasLastPossible = (lastPossibleTs \<in> set currentCandleTimestamps);
          hasLaterData = (case maxTs of None \<Rightarrow> False
                          | Some m \<Rightarrow> m \<ge> timestamp currentCandle + intervalMs)
      in currentCandle\<lparr>isClosed := hasLaterData \<or> hasLastPossible\<rparr>)"


text \<open>Lines 127-130: folding a 1-minute candle into the current output candle.\<close>

definition updateCandle :: "candle \<Rightarrow> candle \<Rightarrow> candle" where
  "updateCandle currentCandle candle1m =
     currentCandle\<lparr> high := jsMax (high currentCandle) (high candle1m),
                     low := jsMin (low currentCandle) (low candle1m),
                     close := close candle1m,
                     volume := volume currentCandle + volume candle1m \<rparr>"






text \<open>A runtime for examples: the server's clock is UTC and New York is at UTC-4.\<close>

definition utcServerEdt :: runtime where
  "utcServerEdt = \<lparr> easternWallClock = (\<lambda>t. t - 4 * 60 * 60 * 1000), localInstant = (\<lambda>w. w) \<rparr>"



section \<open>The live candle updater (processTradeForClient in handleGetData)\<close>

record trade =
  trade_timestamp :: int
  trade_price :: real
  trade_size :: int
  trade_side :: string
  trade_instrument :: string

datatype liveError =
    TypeError string
  | Thrown jsError

text \<open>
  The state the trade callback works on: the fields of the connection object \<open>ws\<close>, the
  variable \<open>next1mStarts\<close> of the enclosing call of \<open>handleGetData\<close>, the session cache of
  candle-processor.js, and what the callback does to the outside: the candles passed to
  \<open>ws.outputFunc\<close> and the batches passed to \<open>batchInsertCandles\<close>, in order. A JavaScript
  \<open>Map\<close> keeps its keys in insertion order, so the open candles of an instrument are a
  list of pairs.
\<close>

record session =
  isLiveActive :: bool
  isProcessingTimeframeChange :: bool
  tradeQueue :: "trade list"
  activeSubscriptions :: "string \<rightharpoonup> string list"
  next1mStarts :: "string \<rightharpoonup> int"
  open1mCandles :: "string \<rightharpoonup> candle"
  openCandles :: "string \<rightharpoonup> (string \<times> candle) list"
  sessionBoundaryCache :: "int \<rightharpoonup> int"
  emitted :: "candle list"
  cacheBatches :: "candle list list"

text \<open>\<open>v || x\<close> on a price field: \<open>null\<close> and 0 are falsy.\<close>

definition orElse :: "real option \<Rightarrow> real \<Rightarrow> real" where
  "orElse v x = (case v of None \<Rightarrow> x | Some y \<Rightarrow> if y = 0 then x else y)"

text \<open>Lines 438-451 and 493-504: the candle a trade starts.\<close>

definition candleFromTrade :: "string \<Rightarrow> string \<Rightarrow> int \<Rightarrow> trade \<Rightarrow> bool option \<Rightarrow> candle" where
  "candleFromTrade instr tf newStart x fu =
     \<lparr> timestamp = newStart, openv = Some (trade_price x), high = Some (trade_price x),
       low = Some (trade_price x), close = Some (trade_price x), volume = trade_size x,
       instrument = instr, timeframe = tf, source = SrcT, isClosed = False, firstUpdate = fu \<rparr>"

text \<open>Lines 462-468 and 509-515: folding a trade into an open candle.\<close>

definition foldTrade :: "candle \<Rightarrow> trade \<Rightarrow> candle" where
  "foldTrade c x =
     c\<lparr> openv := (if openv c = None then Some (trade_price x) else openv c),
        high := Some (max (orElse (high c) (trade_price x)) (trade_price x)),
        low := Some (min (orElse (low c) (trade_price x)) (trade_price x)),
        close := Some (trade_price x),
        volume := volume c + trade_size x \<rparr>"

text \<open>Lines 426-473: the open 1-minute candle of the instrument.\<close>

definition update1mCandle :: "session \<Rightarrow> string \<Rightarrow> string list \<Rightarrow> candle \<Rightarrow> trade \<Rightarrow> session" where
  "update1mCandle st instr subs open1mCandle x =
     (if trade_timestamp x \<ge> timestamp open1mCandle + 60000 then
        (let closed = open1mCandle\<lparr>isClosed := True\<rparr>;
             st1 = (if ''1m'' \<in> set subs then st\<lparr>emitted := emitted st @ [closed]\<rparr> else st);
             st2 = st1\<lparr>cacheBatches := cacheBatches st1 @ [[closed]]\<rparr>;
             newStart = (trade_timestamp x div 60000) * 60000;
             fresh = candleFromTrade instr ''1m'' newStart x (Some True);
             st3 = st2\<lparr>open1mCandles := (open1mCandles st2)(instr \<mapsto> fresh)\<rparr>
         in if ''1m'' \<in> set subs then st3\<lparr>emitted := emitted st3 @ [fresh]\<rparr> else st3)
      else
        (let c1 = (if firstUpdate open1mCandle = Some True
                   then open1mCandle\<lparr>firstUpdate := Some False\<rparr> else open1mCandle);
             c2 = foldTrade c1 x;
             st1 = st\<lparr>open1mCandles := (open1mCandles st)(instr \<mapsto> c2)\<rparr>
         in if ''1m'' \<in> set subs then st1\<lparr>emitted := emitted st1 @ [c2]\<rparr> else st1))"

text \<open>
  Lines 478-518: the loop over the open candles of the instrument. The result is the
  entries after the loop, the session cache, the candles emitted, and the error when
  \<open>parseTimeframeMs\<close> throws on an entry; the entries before it have been updated then.
\<close>

fun updateOpenCandles ::
  "runtime \<Rightarrow> string \<Rightarrow> trade \<Rightarrow> (int \<rightharpoonup> int) \<Rightarrow> (string \<times> candle) list
     \<Rightarrow> (string \<times> candle) list \<times> (int \<rightharpoonup> int) \<times> candle list \<times> jsError option" where
  "updateOpenCandles rt instr x cache [] = ([], cache, [], None)"
| "updateOpenCandles rt instr x cache ((tf, openCandle) # rest) =
     (if tf = ''1m'' then
        (case updateOpenCandles rt instr x cache rest of
           (rest', cache', out, err) \<Rightarrow> ((tf, openCandle) # rest', cache', out, err))
      else
        (case parseTimeframeMs tf of
           Inl e \<Rightarrow> ((tf, openCandle) # rest, cache, [], Some e)
         | Inr intervalMs \<Rightarrow>
             if trade_timestamp x \<ge> timestamp openCandle + intervalMs then
               (let closed = openCandle\<lparr>isClosed := True\<rparr> in
                case needsSessionAlignment tf of
                  Inl e \<Rightarrow> ((tf, closed) # rest, cache, [closed], Some e)
                | Inr session \<Rightarrow>
                    (case (if session
                           then getSessionBasedAlignment rt cache (trade_timestamp x) intervalMs
                           else ((trade_timestamp x div intervalMs) * intervalMs, cache)) of
                       (newStart, cache1) \<Rightarrow>
                         (let fresh = candleFromTrade instr tf newStart x None in
                          case updateOpenCandles rt instr x cache1 rest of
                            (rest', cache', out, err) \<Rightarrow>
                              ((tf, fresh) # rest', cache', closed # fresh # out, err))))
             else
               (let c = foldTrade openCandle x in
                case updateOpenCandles rt instr x cache rest of
                  (rest', cache', out, err) \<Rightarrow> ((tf, c) # rest', cache', c # out, err))))"

text \<open>
  \<open>processTradeForClient\<close> (lines 407-520). The second component is the exception the
  callback throws, if any.
\<close>

definition processTradeForClient :: "runtime \<Rightarrow> session \<Rightarrow> trade \<Rightarrow> session \<times> liveError option" where
  "processTradeForClient rt st x =
     (if \<not> isLiveActive st then (st, None)
      else if isProcessingTimeframeChange st then (st\<lparr>tradeQueue := tradeQueue st @ [x]\<rparr>, None)
      else
        (let instr = trade_instrument x in
         case activeSubscriptions st instr of
           None \<Rightarrow> (st, None)
         | Some subs \<Rightarrow>
             if (case next1mStarts st instr of None \<Rightarrow> False
                 | Some next1mStart \<Rightarrow> trade_timestamp x < next1mStart)
             then (st, None)
             else
               (case open1mCandles st instr of
                  None \<Rightarrow> (st, Some (TypeError ''open1mCandle is undefined''))
                | Some open1mCandle \<Rightarrow>
                    (let st1 = update1mCandle st instr subs open1mCandle x in
                     case openCandles st1 instr of
                       None \<Rightarrow> (st1, None)
                     | Some openCandlesForSymbol \<Rightarrow>
                         (case updateOpenCandles rt instr x (sessionBoundaryCache st1)
                                 openCandlesForSymbol of
                            (entries, cache', out, err) \<Rightarrow>
                              (st1\<lparr> openCandles := (openCandles st1)(instr \<mapsto> entries),
                                    sessionBoundaryCache := cache',
                                    emitted := emitted st1 @ out \<rparr>,
                               map_option Thrown err))))))"

text \<open>Delivering trades one after the other; an exception of the callback ends the run.\<close>

fun deliverTrades :: "runtime \<Rightarrow> session \<Rightarrow> trade list \<Rightarrow> session \<times> liveError option" where
  "deliverTrades rt st [] = (st, None)"
| "deliverTrades rt st (x # xs) =
     (case processTradeForClient rt st x of
        (st', None) \<Rightarrow> deliverTrades rt st' xs
      | (st', Some e) \<Rightarrow> (st', Some e))"

section \<open>The timeframe change of handleAddTimeframe\<close>

text \<open>Line 605: the flag is set before the live candles are fetched.\<close>

definition beginTimeframeChange :: "session \<Rightarrow> session" where
  "beginTimeframeChange st = st\<lparr>isProcessingTimeframeChange := True\<rparr>"

text \<open>
  Lines 682-689, the end of \<open>handleAddTimeframe\<close>: the flag is reset and the queue is
  drained. The loop takes the first trade off the queue and calls
  \<open>processTradeForClient\<close>; that name is a constant local to \<open>handleGetData\<close> (line 407) and
  is not in scope in \<open>handleAddTimeframe\<close>, so the call throws a reference error.
\<close>

definition finishTimeframeChange :: "session \<Rightarrow> session \<times> liveError option" where
  "finishTimeframeChange st =
     (let st1 = st\<lparr>isProcessingTimeframeChange := False\<rparr> in
      case tradeQueue st1 of
        [] \<Rightarrow> (st1, None)
      | queuedTrade # rest \<Rightarrow>
          (st1\<lparr>tradeQueue := rest\<rparr>, Some (Thrown (ReferenceError ''processTradeForClient''))))"

section \<open>The replay tick (lib/handlers/replay-handlers.js)\<close>


















section \<open>The live fetchers (lib/data-fetcher.js)\<close>

text \<open>
  A record of the vendor as the data handlers tell them apart once the subscription is
  sent. For a record of type 21 whose text starts with \<open>Invalid start time.\<close> the
  argument is the start it suggests, in milliseconds: the text matched against
  \<open>Must be ([0-9-T:+]+) or later\<close> and read as a date; \<open>None\<close> when the pattern does not
  match.
\<close>

datatype vendorMessage =
    InvalidStartTime "int option"
  | OhlcvBar candle
  | SymbolMapping int string
  | TradeRecord int int real int string
  | Heartbeat
  | OtherMessage

text \<open>
  What happens on a channel after the handshake: a record arrives (one record for each
  \<open>data\<close> event), the 500 ms inactivity timer fires, the socket reports an error, or the
  socket closes.
\<close>

datatype channelEvent =
    Message vendorMessage
  | InactivityTimeout
  | ChannelError
  | ChannelClosed

datatype fetchError = NotConfigured | RetriesExceeded | NoSuggestedStart | ConnectionFailed

datatype 'a outcome = Resolved 'a | Rejected fetchError | Pending

text \<open>
  How one channel ends for the fetcher: its promise is settled or stays pending
  (\<open>Done\<close>, with whether the code destroyed the channel), or the channel is destroyed and
  the fetcher calls itself with a new start (\<open>Retry\<close>).
\<close>

datatype 'a channelEnd = Done "'a outcome" bool | Retry int

text \<open>
  The handlers of \<open>fetchLive1mCandles\<close> (lines 259-387) on the events of one channel.
  A bar outside the requested range is dropped (line 337).
\<close>

fun liveCandlesChannel :: "int \<Rightarrow> int \<Rightarrow> candle list \<Rightarrow> channelEvent list \<Rightarrow> candle list channelEnd" where
  "liveCandlesChannel startMs endMs liveCandles [] = Done Pending False"
| "liveCandlesChannel startMs endMs liveCandles (Message (InvalidStartTime (Some newStartMs)) # rest) =
     Retry newStartMs"
| "liveCandlesChannel startMs endMs liveCandles (Message (InvalidStartTime None) # rest) =
     Done (Rejected NoSuggestedStart) False"
| "liveCandlesChannel startMs endMs liveCandles (Message (OhlcvBar c) # rest) =
     (if timestamp c < startMs \<or> timestamp c > endMs
      then liveCandlesChannel startMs endMs liveCandles rest
      else liveCandlesChannel startMs endMs (liveCandles @ [c]) rest)"
| "liveCandlesChannel startMs endMs liveCandles (Message m # rest) =
     liveCandlesChannel startMs endMs liveCandles rest"
| "liveCandlesChannel startMs endMs liveCandles (InactivityTimeout # rest) =
     Done (Resolved liveCandles) True"
| "liveCandlesChannel startMs endMs liveCandles (ChannelError # rest) =
     Done (Rejected ConnectionFailed) False"
| "liveCandlesChannel startMs endMs liveCandles (ChannelClosed # rest) =
     Done (Resolved liveCandles) False"

text \<open>
  The result of a fetcher: how its promise ends, the start of every connection it
  opened, in order, and how many channels it destroyed.
\<close>

record 'a liveFetch =
  lf_outcome :: "'a outcome"
  lf_connections :: "int list"
  lf_destroyed :: nat

text \<open>
  \<open>fetchLive1mCandles\<close> (lines 224-389). \<open>configured\<close>: the settings hold \<open>live_host\<close>,
  \<open>api_key\<close> and \<open>dataset\<close>. \<open>channels\<close> gives the events of the first channel the fetcher
  opens, of the second, and so on; a channel with no events listed stays silent.
\<close>

fun fetchLive1mCandles ::
  "bool \<Rightarrow> channelEvent list list \<Rightarrow> nat \<Rightarrow> int \<Rightarrow> int \<Rightarrow> candle list liveFetch" where
  "fetchLive1mCandles configured channels retryCount startMs endMs =
     (if \<not> configured then
        \<lparr> lf_outcome = Rejected NotConfigured, lf_connections = [], lf_destroyed = 0 \<rparr>
      else if retryCount > 3 then
        \<lparr> lf_outcome = Rejected RetriesExceeded, lf_connections = [], lf_destroyed = 0 \<rparr>
      else
        (case channels of
           [] \<Rightarrow> \<lparr> lf_outcome = Pending, lf_connections = [startMs], lf_destroyed = 0 \<rparr>
         | events # later \<Rightarrow>
             (case liveCandlesChannel startMs endMs [] events of
                Done out destroyed \<Rightarrow>
                  \<lparr> lf_outcome = out, lf_connections = [startMs],
                    lf_destroyed = (if destroyed then 1 else 0) \<rparr>
              | Retry newStartMs \<Rightarrow>
                  (let r = fetchLive1mCandles configured later (retryCount + 1) newStartMs endMs
                   in r\<lparr> lf_connections := startMs # lf_connections r,
                         lf_destroyed := lf_destroyed r + 1 \<rparr>))))"

text \<open>
  The handlers of \<open>startLiveTradesSubscription\<close> (lines 109-219) on the events of one
  channel: the map from instrument ids to symbols, the flag \<open>isHandlingError\<close> and the
  trades passed to \<open>onTrade\<close> so far. The branch for an invalid start time sets the flag
  and then reads \<open>inactivityTimer\<close> (line 156), a variable declared in
  \<open>fetchLive1mCandles\<close> only: the read throws a reference error, which the enclosing
  \<open>try\<close> catches and logs as a parse error (line 201). The lines after it, which destroy
  the channel and call the function again, do not run; with the flag set every later
  record, error and close of the channel is skipped (lines 110, 208, 215).
\<close>

fun liveTradesChannel ::
  "(int \<rightharpoonup> string) \<Rightarrow> bool \<Rightarrow> trade list \<Rightarrow> channelEvent list \<Rightarrow> unit channelEnd \<times> trade list" where
  "liveTradesChannel symbols isHandlingError delivered [] = (Done Pending False, delivered)"
| "liveTradesChannel symbols isHandlingError delivered (Message m # rest) =
     (if isHandlingError then liveTradesChannel symbols isHandlingError delivered rest
      else
        (case m of
           InvalidStartTime (Some newStartMs) \<Rightarrow> liveTradesChannel symbols True delivered rest
         | InvalidStartTime None \<Rightarrow> (Done (Rejected NoSuggestedStart) False, delivered)
         | SymbolMapping instrumentId symbol \<Rightarrow>
             liveTradesChannel (symbols(instrumentId \<mapsto> symbol)) isHandlingError delivered rest
         | TradeRecord instrumentId ts price qty side \<Rightarrow>
             liveTradesChannel symbols isHandlingError
               (delivered @ [\<lparr> trade_timestamp = ts, trade_price = price, trade_size = qty,
                               trade_side = side,
                               trade_instrument = (case symbols instrumentId of
                                                     None \<Rightarrow> ''unknown'' | Some name \<Rightarrow> name) \<rparr>])
               rest
         | _ \<Rightarrow> liveTradesChannel symbols isHandlingError delivered rest))"
| "liveTradesChannel symbols isHandlingError delivered (InactivityTimeout # rest) =
     liveTradesChannel symbols isHandlingError delivered rest"
| "liveTradesChannel symbols isHandlingError delivered (ChannelError # rest) =
     (if isHandlingError then liveTradesChannel symbols isHandlingError delivered rest
      else (Done (Rejected ConnectionFailed) False, delivered))"
| "liveTradesChannel symbols isHandlingError delivered (ChannelClosed # rest) =
     (if isHandlingError then liveTradesChannel symbols isHandlingError delivered rest
      else (Done (Resolved ()) False, delivered))"

text \<open>
  \<open>startLiveTradesSubscription\<close> (lines 73-221), with the trades it passed to \<open>onTrade\<close>.
  The recursive call of line 173 is written for the \<open>Retry\<close> end of a channel, which
  \<open>liveTradesChannel\<close> never produces.
\<close>

fun startLiveTradesSubscription ::
  "bool \<Rightarrow> channelEvent list list \<Rightarrow> nat \<Rightarrow> int \<Rightarrow> unit liveFetch \<times> trade list" where
  "startLiveTradesSubscription configured channels retryCount startTs =
     (if \<not> configured then
        (\<lparr> lf_outcome = Rejected NotConfigured, lf_connections = [], lf_destroyed = 0 \<rparr>, [])
      else if retryCount > 3 then
        (\<lparr> lf_outcome = Rejected RetriesExceeded, lf_connections = [], lf_destroyed = 0 \<rparr>, [])
      else
        (case channels of
           [] \<Rightarrow> (\<lparr> lf_outcome = Pending, lf_connections = [startTs], lf_destroyed = 0 \<rparr>, [])
         | events # later \<Rightarrow>
             (case liveTradesChannel Map.empty False [] events of
                (Done out destroyed, delivered) \<Rightarrow>
                  (\<lparr> lf_outcome = out, lf_connections = [startTs],
                     lf_destroyed = (if destroyed then 1 else 0) \<rparr>, delivered)
              | (Retry newStartMs, delivered) \<Rightarrow>
                  (case startLiveTradesSubscription configured later (retryCount + 1) newStartMs of
                     (r, delivered') \<Rightarrow>
                       (r\<lparr> lf_connections := startTs # lf_connections r,
                           lf_destroyed := lf_destroyed r + 1 \<rparr>, delivered @ delivered')))))"

declare fetchLive1mCandles.simps [simp del]
declare startLiveTradesSubscription.simps [simp del]

section \<open>Example values\<close>

definition exBar :: candle where
  "exBar = \<lparr> timestamp = 60000, openv = Some 100, high = Some 101, low = Some 99,
     close = Some 100, volume = 10, instrument = ''ES'', timeframe = ''1m'',
     source = SrcH, isClosed = True, firstUpdate = None \<rparr>"

definition quietEnv :: getDataEnv where
  "quietEnv = \<lparr> vendor = (\<lambda>_. Some []), txOutcomeOf = (\<lambda>_. Committed) \<rparr>"





text \<open>
  A live session on ES with the timeframes 1m and 5m, as \<open>handleGetData\<close> leaves it when
  the last 1-minute bar it served is the one of 00:00: the open 1-minute candle starts at
  00:01, the open 5-minute candle at 00:00, both empty.
\<close>

definition emptyCandle :: "string \<Rightarrow> int \<Rightarrow> candle" where
  "emptyCandle tf t =
     \<lparr> timestamp = t, openv = None, high = None, low = None, close = None, volume = 0,
       instrument = ''ES'', timeframe = tf, source = SrcT, isClosed = False,
       firstUpdate = (if tf = ''1m'' then Some True else None) \<rparr>"

definition exSession :: session where
  "exSession =
     \<lparr> isLiveActive = True, isProcessingTimeframeChange = False, tradeQueue = [],
       activeSubscriptions = [''ES'' \<mapsto> [''1m'', ''5m'']],
       next1mStarts = [''ES'' \<mapsto> 60000],
       open1mCandles = [''ES'' \<mapsto> emptyCandle ''1m'' 60000],
       openCandles = [''ES'' \<mapsto> [(''5m'', emptyCandle ''5m'' 0)]],
       sessionBoundaryCache = Map.empty, emitted = [], cacheBatches = [] \<rparr>"

definition exTrade :: "int \<Rightarrow> real \<Rightarrow> int \<Rightarrow> trade" where
  "exTrade t p n = \<lparr> trade_timestamp = t, trade_price = p, trade_size = n,
                     trade_side = ''B'', trade_instrument = ''ES'' \<rparr>"



section \<open>The cache never holds a null bar\<close>









section \<open>Clearing everything\<close>

text \<open>
  C10. When instrument, timeframe, start_time and end_time are each absent or \<open>'all'\<close>, the
  statement of \<open>handleClearCache\<close> is \<open>DELETE FROM CANDLES\<close> with no \<open>WHERE\<close> clause and no
  parameter, and when it runs without a database error no row of the table is left.
\<close>

theorem handleClearCache_all_deletes_everything:
  assumes "absentOrAll (rq_instrument rq)" and "absentOrAll (rq_timeframe rq)"
    and "absentOrAll (rq_start_time rq)" and "absentOrAll (rq_end_time rq)"
  shows "clearCacheQuery rq = ''DELETE FROM CANDLES'' \<and> clearCacheParams rq = []
         \<and> handleClearCache holds False db rq = ([], ClearCacheResponse (length db))"
proof -
  from assms have "clearCacheConditions rq = []"
    by (auto simp: clearCacheConditions_def absentOrAll_def orAll_def Let_def)
  then show ?thesis
    by (simp add: clearCacheQuery_def clearCacheParams_def handleClearCache_def runDelete_def Let_def)
qed

theorem handleClearCache_all_deletes_everything_witness:
  "absentOrAll None \<and> absentOrAll (Some (JStr ''all''))
   \<and> clearCacheQuery \<lparr> rq_instrument = None, rq_timeframe = Some (JStr ''all''),
                        rq_start_time = None, rq_end_time = Some (JStr ''all'') \<rparr>
     = ''DELETE FROM CANDLES''"
  using handleClearCache_all_deletes_everything
    [of "\<lparr> rq_instrument = None, rq_timeframe = Some (JStr ''all''),
           rq_start_time = None, rq_end_time = Some (JStr ''all'') \<rparr>"]
  by (simp add: absentOrAll_def)

section \<open>Cushions of the acquisition\<close>

lemma fillEarlier_calls:
  "acq_calls (fillEarlier env symbol startMs save_cache e st) =
     acq_calls st @ (if e - startMs > EARLY_CANDLE_CUSHION_MINUTES * 60 * 1000
                     then [EarlyFetch symbol startMs (e - 60000)] else [])"
  by (auto simp: fillEarlier_def Let_def EARLY_CANDLE_CUSHION_MINUTES_def split: option.splits)

lemma fetchLater_calls:
  "acq_calls (fetchLater env symbol endMs save_cache l st) =
     acq_calls st @ [LateFetch symbol (l + 60000) endMs]"
  by (auto simp: fetchLater_def Let_def split: option.splits)

lemma fillLater_calls:
  "acq_calls (fillLater env symbol endMs end_time save_cache l st) =
     acq_calls st @ (if endMs > l \<and> (explicitEnd end_time
                          \<or> endMs - l > LATE_CANDLE_CUSHION_MINUTES * 60 * 1000)
                     then [LateFetch symbol (l + 60000) endMs] else [])"
  by (auto simp: fillLater_def Let_def fetchLater_calls explicitEnd_def)

lemma acquire1m_cached_calls:
  assumes "use_cache"
    and "getCached1mCandles db symbol (requestStartMs now start_time) (requestEndMs now end_time) = cached"
    and "cached \<noteq> []"
  shows "acq_calls (acquire1m env now start_time end_time use_cache save_cache db symbol) =
     (if Min (set (map timestamp cached)) - requestStartMs now start_time
           > EARLY_CANDLE_CUSHION_MINUTES * 60 * 1000
      then [EarlyFetch symbol (requestStartMs now start_time) (Min (set (map timestamp cached)) - 60000)]
      else []) @
     (if requestEndMs now end_time > Max (set (map timestamp cached))
         \<and> (explicitEnd end_time
              \<or> requestEndMs now end_time - Max (set (map timestamp cached))
                   > LATE_CANDLE_CUSHION_MINUTES * 60 * 1000)
      then [LateFetch symbol (Max (set (map timestamp cached)) + 60000) (requestEndMs now end_time)]
      else [])"
  using assms
  by (simp add: acquire1m_def Let_def fillEarlier_calls fillLater_calls)

text \<open>
  C4, as stated, fails: with an explicit end_time equal to the latest cached timestamp
  the cached bars are present and the end is explicit, yet no late refetch is issued,
  because the late fill is guarded by \<open>endMs > latestCachedForSymbol\<close> (line 258).
\<close>

theorem handleGetData_explicit_end_no_late_refetch:
  "getCached1mCandles [rowOfCandle exBar] ''ES'' (requestStartMs 100000 (Some 60000))
        (requestEndMs 100000 (EndExplicit 60000)) \<noteq> []
   \<and> explicitEnd (EndExplicit 60000)
   \<and> \<not> lateRefetchIssued
         (acquire1m quietEnv 100000 (Some 60000) (EndExplicit 60000) True True
            [rowOfCandle exBar] ''ES'')"
  by (simp add: getCached1mCandles_def rowOfCandle_def exBar_def requestStartMs_def
      requestEndMs_def explicitEnd_def lateRefetchIssued_def acquire1m_def Let_def
      candleOfRow_def fillEarlier_def fillLater_def)

text \<open>
  C4, amended. When the cache is used and holds 1-minute bars of the symbol in the
  requested range, \<open>handleGetData\<close> issues the early historical refetch if and only if the
  earliest cached timestamp minus the requested start exceeds 3 days, and issues the late
  historical refetch if and only if the requested end is later than the latest cached
  timestamp and either the caller gave an explicit end_time (neither absent nor
  \<open>'current'\<close>) or the requested end minus the latest cached timestamp exceeds 3 hours.
\<close>

theorem handleGetData_cushion_refetch:
  assumes "use_cache"
    and "getCached1mCandles db symbol (requestStartMs now start_time) (requestEndMs now end_time) = cached"
    and "cached \<noteq> []"
  shows "(earlyRefetchIssued (acquire1m env now start_time end_time use_cache save_cache db symbol)
          \<longleftrightarrow> Min (set (map timestamp cached)) - requestStartMs now start_time
                > 3 * 24 * 60 * 60 * 1000)
       \<and> (lateRefetchIssued (acquire1m env now start_time end_time use_cache save_cache db symbol)
          \<longleftrightarrow> requestEndMs now end_time > Max (set (map timestamp cached))
              \<and> (explicitEnd end_time
                   \<or> requestEndMs now end_time - Max (set (map timestamp cached))
                        > 3 * 60 * 60 * 1000))"
  unfolding earlyRefetchIssued_def lateRefetchIssued_def acquire1m_cached_calls [OF assms]
  by (simp add: EARLY_CANDLE_CUSHION_MINUTES_def LATE_CANDLE_CUSHION_MINUTES_def)

theorem handleGetData_cushion_refetch_witness:
  "getCached1mCandles [rowOfCandle exBar] ''ES'' (requestStartMs 400000000 (Some 0))
        (requestEndMs 400000000 EndCurrent) = [exBar\<lparr>source := SrcC\<rparr>]
   \<and> \<not> earlyRefetchIssued
         (acquire1m quietEnv 400000000 (Some 0) EndCurrent True True [rowOfCandle exBar] ''ES'')
   \<and> lateRefetchIssued
         (acquire1m quietEnv 400000000 (Some 0) EndCurrent True True [rowOfCandle exBar] ''ES'')"
proof -
  have q: "getCached1mCandles [rowOfCandle exBar] ''ES'' (requestStartMs 400000000 (Some 0))
        (requestEndMs 400000000 EndCurrent) = [exBar\<lparr>source := SrcC\<rparr>]"
    by (simp add: getCached1mCandles_def rowOfCandle_def exBar_def requestStartMs_def
      requestEndMs_def candleOfRow_def)
  have t: "True" by simp
  show ?thesis
    using handleGetData_cushion_refetch [OF t q, of quietEnv True] q
    by (simp add: exBar_def requestStartMs_def requestEndMs_def explicitEnd_def)
qed

section \<open>Aggregation into buckets\<close>

subsection \<open>UTC-aligned buckets\<close>



lemma timestamp_foldl_update [simp]:
  "timestamp (foldl updateCandle s cs) = timestamp s"
  by (induction cs arbitrary: s) (simp_all add: updateCandle_def)

lemma openv_foldl_update [simp]:
  "openv (foldl updateCandle s cs) = openv s"
  by (induction cs arbitrary: s) (simp_all add: updateCandle_def)

lemma instrument_foldl_update [simp]:
  "instrument (foldl updateCandle s cs) = instrument s"
  by (induction cs arbitrary: s) (simp_all add: updateCandle_def)

lemma timeframe_foldl_update [simp]:
  "timeframe (foldl updateCandle s cs) = timeframe s"
  by (induction cs arbitrary: s) (simp_all add: updateCandle_def)













lemma timestamp_closeCandle [simp]:
  "timestamp (closeCandle I maxTs cur tss) = timestamp cur"
  by (simp add: closeCandle_def Let_def)








subsection \<open>Buckets of every kind\<close>













subsection \<open>The scenarios, evaluated\<close>





subsection \<open>What an output bar holds\<close>




subsection \<open>When an output bar is closed\<close>




section \<open>The session-start cache\<close>

text \<open>
  Whatever the time zones of the runtime: once a timestamp has filled the cache, every
  timestamp of the same UTC day gets the session start computed for the first.
\<close>

lemma getSessionStartUTC_cached_by_utc_day:
  assumes "t1 div (24 * 60 * 60 * 1000) = t2 div (24 * 60 * 60 * 1000)"
  shows "fst (getSessionStartUTC rt (snd (getSessionStartUTC rt Map.empty t1)) t2)
         = fst (getSessionStartUTC rt Map.empty t1)"
  using assms by (simp add: getSessionStartUTC_def Let_def)

text \<open>
  C5 at a failing input. The cache of \<open>getSessionStartUTC\<close> is keyed by the UTC day, but the
  value depends on the New York calendar day of the timestamp that filled it. With New
  York at UTC-4, 2024-06-11 01:00 UTC and 2024-06-11 23:00 UTC are on the same UTC day
  and on different New York days. With an empty cache the session start for 23:00 UTC
  is 2024-06-11 22:00 UTC; after a call for 01:00 UTC it is the cached 2024-06-10 22:00
  UTC, and the 5-hour bucket of 23:00 UTC changes from 22:00 UTC to 23:00 UTC.
\<close>

theorem getSessionStartUTC_cache_changes_result:
  "1718067600000 div (24 * 60 * 60 * 1000) = (1718146800000::int) div (24 * 60 * 60 * 1000)
   \<and> fst (getSessionStartUTC utcServerEdt Map.empty 1718146800000) = 1718143200000
   \<and> fst (getSessionStartUTC utcServerEdt
            (snd (getSessionStartUTC utcServerEdt Map.empty 1718067600000)) 1718146800000)
       = 1718056800000
   \<and> fst (getSessionBasedAlignment utcServerEdt Map.empty 1718146800000 (5 * 60 * 60 * 1000))
       = 1718143200000
   \<and> fst (getSessionBasedAlignment utcServerEdt
            (snd (getSessionStartUTC utcServerEdt Map.empty 1718067600000))
            1718146800000 (5 * 60 * 60 * 1000))
       = 1718146800000"
  by (simp add: getSessionStartUTC_def getSessionBasedAlignment_def utcServerEdt_def dayMs_def
      Let_def)


section \<open>Late trades\<close>





section \<open>The trade queue of a timeframe change\<close>

lemma processTradeForClient_queues:
  assumes "isLiveActive st" and "isProcessingTimeframeChange st"
  shows "processTradeForClient rt st x = (st\<lparr>tradeQueue := tradeQueue st @ [x]\<rparr>, None)"
  using assms by (simp add: processTradeForClient_def)

lemma deliverTrades_queues:
  assumes "isLiveActive st" and "isProcessingTimeframeChange st"
  shows "deliverTrades rt st xs = (st\<lparr>tradeQueue := tradeQueue st @ xs\<rparr>, None)"
  using assms
proof (induction xs arbitrary: st)
  case Nil
  then show ?case by simp
next
  case (Cons x xs)
  have "deliverTrades rt st (x # xs) = deliverTrades rt (st\<lparr>tradeQueue := tradeQueue st @ [x]\<rparr>) xs"
    using Cons.prems by (simp add: processTradeForClient_queues)
  also have "\<dots> = (st\<lparr>tradeQueue := tradeQueue st @ [x] @ xs\<rparr>, None)"
    using Cons.IH [of "st\<lparr>tradeQueue := tradeQueue st @ [x]\<rparr>"] Cons.prems by simp
  finally show ?case by simp
qed

text \<open>
  C3 at a failing input. During a timeframe change of the example session two trades
  arrive; both are queued and no candle is touched. When the change ends the queue is
  drained by a call of \<open>processTradeForClient\<close>, which is not in scope in
  \<open>handleAddTimeframe\<close>: the first trade has been taken off the queue and is lost, the
  handler throws, the second trade stays in the queue, and the session is otherwise the
  one before the change: no queued trade has been applied.
\<close>

theorem finishTimeframeChange_drops_queued_trade:
  "deliverTrades utcServerEdt (beginTimeframeChange exSession)
      [exTrade 190000 100 1, exTrade 200000 101 1]
     = ((beginTimeframeChange exSession)
          \<lparr>tradeQueue := [exTrade 190000 100 1, exTrade 200000 101 1]\<rparr>, None)
   \<and> finishTimeframeChange
       ((beginTimeframeChange exSession)
          \<lparr>tradeQueue := [exTrade 190000 100 1, exTrade 200000 101 1]\<rparr>)
     = (exSession\<lparr>tradeQueue := [exTrade 200000 101 1]\<rparr>,
        Some (Thrown (ReferenceError ''processTradeForClient'')))"
  by (simp add: processTradeForClient_def beginTimeframeChange_def finishTimeframeChange_def
      exSession_def)

section \<open>The clock of the replay\<close>









section \<open>Retries of the live fetchers\<close>

text \<open>\<open>fetchLive1mCandles\<close> opens at most four connections.\<close>

lemma fetchLive1mCandles_connection_cap:
  "length (lf_connections (fetchLive1mCandles configured channels retryCount startMs endMs))
     \<le> 4 - retryCount"
proof (induction channels arbitrary: retryCount startMs)
  case Nil
  then show ?case by (auto simp: fetchLive1mCandles.simps)
next
  case (Cons events later)
  show ?case
  proof (cases "liveCandlesChannel startMs endMs [] events")
    case (Done out destroyed)
    then show ?thesis by (auto simp: fetchLive1mCandles.simps)
  next
    case (Retry newStartMs)
    with Cons.IH [of "retryCount + 1" newStartMs] show ?thesis
      by (auto simp: fetchLive1mCandles.simps [of configured "events # later"] Let_def)
  qed
qed

text \<open>
  When the vendor rejects every start, \<open>fetchLive1mCandles\<close> connects four times, each
  time with the start the vendor suggested last, destroys each channel, and fails.
\<close>

lemma fetchLive1mCandles_always_rejected:
  "fetchLive1mCandles True
     [[Message (InvalidStartTime (Some x1))], [Message (InvalidStartTime (Some x2))],
      [Message (InvalidStartTime (Some x3))], [Message (InvalidStartTime (Some x4))],
      [Message (InvalidStartTime (Some x5))]] 0 startMs endMs
   = \<lparr> lf_outcome = Rejected RetriesExceeded, lf_connections = [startMs, x1, x2, x3],
       lf_destroyed = 4 \<rparr>"
  by (simp add: fetchLive1mCandles.simps Let_def)

text \<open>
  C8 at a failing input. The vendor answers the first subscription with
  \<open>Invalid start time. Must be 2024-06-10T12:00:00+00:00 or later\<close> and then closes the
  channel. \<open>fetchLive1mCandles\<close> destroys the channel and connects again with the corrected
  start. \<open>startLiveTradesSubscription\<close> does neither: it opens no second connection,
  destroys nothing, and its promise stays pending.
\<close>

theorem startLiveTradesSubscription_does_not_retry:
  "fetchLive1mCandles True
     [[Message (InvalidStartTime (Some 1718020800000))], [ChannelClosed]]
     0 1718000000000 1718100000000
   = \<lparr> lf_outcome = Resolved [], lf_connections = [1718000000000, 1718020800000],
       lf_destroyed = 1 \<rparr>
   \<and> startLiveTradesSubscription True
     [[Message (InvalidStartTime (Some 1718020800000)), ChannelClosed], [ChannelClosed]]
     0 1718000000000000000
   = (\<lparr> lf_outcome = Pending, lf_connections = [1718000000000000000], lf_destroyed = 0 \<rparr>, [])"
  by (simp add: fetchLive1mCandles.simps startLiveTradesSubscription.simps Let_def)

end
